theory Spec2Isabelle
  imports Complex_Main "HOL-Library.Sublist"
begin

section \<open>The digest generator of the ACR intel agent\<close>

text \<open>
  This theory embeds \<^verbatim>\<open>build_digest\<close> of \<^verbatim>\<open>src/scripts/generate_digest.py\<close>, the
  function that turns the summaries of the last day into the three tiers of the daily
  digest (\<^verbatim>\<open>must_know\<close>, \<^verbatim>\<open>worth_a_look\<close>, \<^verbatim>\<open>quick_hits\<close>), and settles the
  properties the specification states about it.
\<close>

subsection \<open>Data model\<close>

text \<open>
  A row of the \<^verbatim>\<open>summaries\<close> table arrives as a Python dict. Every field is read with
  \<^verbatim>\<open>s.get(key, default)\<close>, so a field is either absent (\<open>None\<close>) or present. The joined
  \<^verbatim>\<open>item\<close> is absent or null, one dict, or a list of dicts; a dict is a list of
  key/value pairs, and the empty dict is falsy in Python. A score that is present is an
  integer and a flag that is present is a boolean, as \<^verbatim>\<open>summarize.py\<close> stores them
  (lines 96-97); Python's integers are unbounded.
\<close>

type_synonym item_dict = "(string \<times> string) list"

datatype item_ref = ItemNone | ItemDict item_dict | ItemList "item_dict list"

record summary_row =
  s_item :: item_ref
  s_summary :: "string option"
  s_why_it_matters :: "string option"
  s_category :: "string option"
  s_relevance_score :: "int option"
  s_must_read :: "bool option"

text \<open>The dict that \<^verbatim>\<open>build_digest\<close> appends to \<^verbatim>\<open>items\<close> (lines 80-88).\<close>

record digest_item =
  title :: string
  url :: string
  summary :: string
  why_it_matters :: string
  category :: string
  relevance_score :: int
  must_read :: bool

text \<open>The dict that \<^verbatim>\<open>build_digest\<close> returns (lines 105-109).\<close>

record digest =
  must_know :: "digest_item list"
  worth_a_look :: "digest_item list"
  quick_hits :: "digest_item list"

subsection \<open>Collecting the items (lines 70-88)\<close>

text \<open>\<^verbatim>\<open>d.get(k, default)\<close> on a dict and on an optional field.\<close>

definition dict_get :: "item_dict \<Rightarrow> string \<Rightarrow> string \<Rightarrow> string" where
  "dict_get d k dflt = (case map_of d k of None \<Rightarrow> dflt | Some v \<Rightarrow> v)"

definition field_get :: "'a option \<Rightarrow> 'a \<Rightarrow> 'a" where
  "field_get f dflt = (case f of None \<Rightarrow> dflt | Some v \<Rightarrow> v)"

text \<open>
  Lines 72-78: \<^verbatim>\<open>if not item: continue\<close> skips an absent item, the empty dict and the
  empty list; a list is replaced by its first element, which is skipped when falsy.
\<close>

fun pick_item :: "item_ref \<Rightarrow> item_dict option" where
  "pick_item ItemNone = None"
| "pick_item (ItemDict d) = (if d = [] then None else Some d)"
| "pick_item (ItemList []) = None"
| "pick_item (ItemList (d # ds)) = (if d = [] then None else Some d)"

definition make_item :: "summary_row \<Rightarrow> item_dict \<Rightarrow> digest_item" where
  "make_item s it =
     \<lparr> title = dict_get it ''title'' ''Untitled'',
       url = dict_get it ''url'' '''',
       summary = field_get (s_summary s) '''',
       why_it_matters = field_get (s_why_it_matters s) '''',
       category = field_get (s_category s) ''sar'',
       relevance_score = field_get (s_relevance_score s) 0,
       must_read = field_get (s_must_read s) False \<rparr>"

fun collect_items :: "summary_row list \<Rightarrow> digest_item list" where
  "collect_items [] = []"
| "collect_items (s # ss) =
     (case pick_item (s_item s) of
        None \<Rightarrow> collect_items ss
      | Some it \<Rightarrow> make_item s it # collect_items ss)"

subsection \<open>Sorting and thresholds (lines 90-95)\<close>

text \<open>
  \<^verbatim>\<open>items.sort(key=..., reverse=True)\<close> is a stable sort by descending score: items
  with equal scores keep their order. \<^const>\<open>sort_key\<close> is a stable insertion sort, here on
  the negated score.
\<close>

definition sort_items :: "digest_item list \<Rightarrow> digest_item list" where
  "sort_items xs = sort_key (\<lambda>i. - relevance_score i) xs"

definition max_score :: "digest_item list \<Rightarrow> int" where
  "max_score items =
     (let scores = map relevance_score items
      in if scores = [] then 0 else Max (set scores))"

text \<open>
  Python computes \<^verbatim>\<open>max_score * 0.7\<close> and \<^verbatim>\<open>max_score * 0.4\<close> in double precision
  and compares an integer score with the resulting float exactly. The thresholds are
  modelled as exact rationals, and only their comparisons with integer scores reach the
  output. For an integer \<^verbatim>\<open>max_score\<close> of magnitude below \<open>2\<^sup>4\<^sup>9\<close> (any 32-bit
  score) these comparisons agree with the program: where the exact product is an integer,
  the double product is that integer or the double just below it (the double nearest to
  0.7 lies below 0.7, and the excess of the double nearest to 0.4 is rounded away), and
  elsewhere the exact product is at least a tenth away from every integer, far more than
  the rounding error. Integers too large for a double, on which the multiplication raises
  \<^verbatim>\<open>OverflowError\<close>, are outside the model.
\<close>

definition high_threshold :: "digest_item list \<Rightarrow> rat" where
  "high_threshold items = max (of_int (max_score items) * (7 / 10)) 60"

definition mid_threshold :: "digest_item list \<Rightarrow> rat" where
  "mid_threshold items = max (of_int (max_score items) * (4 / 10)) 30"

subsection \<open>Partitioning, truncation and fallback (lines 97-109)\<close>

text \<open>The three list comprehensions before their slices.\<close>

definition must_know_candidates :: "rat \<Rightarrow> digest_item list \<Rightarrow> digest_item list" where
  "must_know_candidates high items =
     filter (\<lambda>i. must_read i \<or> high \<le> of_int (relevance_score i)) items"

definition worth_a_look_candidates :: "rat \<Rightarrow> rat \<Rightarrow> digest_item list \<Rightarrow> digest_item list" where
  "worth_a_look_candidates high mid items =
     filter (\<lambda>i. \<not> must_read i \<and> mid \<le> of_int (relevance_score i)
                 \<and> of_int (relevance_score i) < high) items"

definition quick_hits_candidates :: "rat \<Rightarrow> digest_item list \<Rightarrow> digest_item list" where
  "quick_hits_candidates mid items =
     filter (\<lambda>i. 0 < relevance_score i \<and> of_int (relevance_score i) < mid) items"

text \<open>Lines 101-109: the fallback for an empty top tier, and the returned dict.\<close>

definition fallback :: "digest_item list \<Rightarrow> digest_item list \<Rightarrow> digest_item list \<Rightarrow> digest" where
  "fallback mk wl qh =
     (if mk = [] \<and> wl \<noteq> []
      then \<lparr> must_know = take 2 wl, worth_a_look = drop 2 wl, quick_hits = qh \<rparr>
      else \<lparr> must_know = mk, worth_a_look = wl, quick_hits = qh \<rparr>)"

text \<open>Lines 97-109 for given thresholds, on the sorted items.\<close>

definition assemble :: "rat \<Rightarrow> rat \<Rightarrow> digest_item list \<Rightarrow> digest" where
  "assemble high mid items =
     fallback (take 3 (must_know_candidates high items))
              (take 7 (worth_a_look_candidates high mid items))
              (take 10 (quick_hits_candidates mid items))"

definition build_digest :: "summary_row list \<Rightarrow> digest" where
  "build_digest summaries =
     (let items = sort_items (collect_items summaries)
      in assemble (high_threshold items) (mid_threshold items) items)"

subsection \<open>The local variables of \<^verbatim>\<open>build_digest\<close> as functions of its argument\<close>

text \<open>
  \<^verbatim>\<open>items\<close> after line 90, the two thresholds of lines 94-95 and the three list
  comprehensions of lines 97-99 before their slices.
\<close>

definition items_of :: "summary_row list \<Rightarrow> digest_item list" where
  "items_of summaries = sort_items (collect_items summaries)"

definition high_of :: "summary_row list \<Rightarrow> rat" where
  "high_of summaries = high_threshold (items_of summaries)"

definition mid_of :: "summary_row list \<Rightarrow> rat" where
  "mid_of summaries = mid_threshold (items_of summaries)"

definition must_know_pre :: "summary_row list \<Rightarrow> digest_item list" where
  "must_know_pre summaries = must_know_candidates (high_of summaries) (items_of summaries)"

definition worth_a_look_pre :: "summary_row list \<Rightarrow> digest_item list" where
  "worth_a_look_pre summaries =
     worth_a_look_candidates (high_of summaries) (mid_of summaries) (items_of summaries)"

definition quick_hits_pre :: "summary_row list \<Rightarrow> digest_item list" where
  "quick_hits_pre summaries = quick_hits_candidates (mid_of summaries) (items_of summaries)"

text \<open>An entry of the pool carries an item record when the loop of lines 71-78 keeps it.\<close>

definition has_item :: "summary_row \<Rightarrow> bool" where
  "has_item s = (pick_item (s_item s) \<noteq> None)"

subsection \<open>The specification's wording\<close>

text \<open>
  The specification asks for a score normalisation and derives the thresholds from the
  maximum over the pool. These definitions follow its words, not the code; they are
  compared with the code below.
\<close>

definition clamp_score :: "int \<Rightarrow> int" where
  "clamp_score v = min 100 (max 0 v)"

definition normalise_row :: "summary_row \<Rightarrow> summary_row" where
  "normalise_row s =
     s\<lparr> s_relevance_score := Some (clamp_score (field_get (s_relevance_score s) 0)) \<rparr>"

definition pool_max_score :: "summary_row list \<Rightarrow> int" where
  "pool_max_score summaries =
     (if summaries = [] then 0
      else Max (set (map (\<lambda>s. field_get (s_relevance_score s) 0) summaries)))"

subsection \<open>Example rows\<close>

definition row_of :: "item_ref \<Rightarrow> int option \<Rightarrow> bool \<Rightarrow> summary_row" where
  "row_of ref sc mr =
     \<lparr> s_item = ref, s_summary = None, s_why_it_matters = None, s_category = None,
       s_relevance_score = sc, s_must_read = Some mr \<rparr>"

definition row :: "string \<Rightarrow> int \<Rightarrow> bool \<Rightarrow> summary_row" where
  "row t sc mr = row_of (ItemDict [(''title'', t)]) (Some sc) mr"

definition entry :: "string \<Rightarrow> int \<Rightarrow> bool \<Rightarrow> digest_item" where
  "entry t sc mr =
     \<lparr> title = t, url = '''', summary = '''', why_it_matters = '''', category = ''sar'',
       relevance_score = sc, must_read = mr \<rparr>"

text \<open>Three strong stories without the flag and one flagged story of low score.\<close>

definition crowded_pool :: "summary_row list" where
  "crowded_pool =
     [row ''A'' 100 False, row ''B'' 95 False, row ''C'' 90 False, row ''D'' 20 True]"

text \<open>A pool with scores outside 0..100.\<close>

definition loud_pool :: "summary_row list" where
  "loud_pool = [row ''A'' 200 False, row ''B'' 75 False]"

text \<open>A pool whose best score belongs to an entry without an item record.\<close>

definition orphan_pool :: "summary_row list" where
  "orphan_pool = [row_of ItemNone (Some 100) False, row ''A'' 35 False]"

text \<open>A quiet day: nothing reaches the floor of 60.\<close>

definition quiet_pool :: "summary_row list" where
  "quiet_pool = [row ''C'' 35 False, row ''B'' 40 False, row ''A'' 50 False]"

text \<open>Four stories above the high threshold of 70.\<close>

definition overflow_pool :: "summary_row list" where
  "overflow_pool =
     [row ''A'' 100 False, row ''B'' 95 False, row ''C'' 90 False, row ''D'' 85 False]"

text \<open>Flagged stories of low and of zero score beside one strong story.\<close>

definition flagged_pool :: "summary_row list" where
  "flagged_pool = [row ''A'' 80 False, row ''D'' 20 True, row ''E'' 0 True]"

text \<open>Stories that share scores, delivered out of order.\<close>

definition tied_pool :: "summary_row list" where
  "tied_pool = [row ''A'' 50 False, row ''B'' 80 False, row ''C'' 50 False, row ''D'' 80 False]"

text \<open>A busy day: more stories in every band than its tier can hold.\<close>

definition busy_pool :: "summary_row list" where
  "busy_pool =
     [row ''N1'' 69 False, row ''K1'' 100 False, row ''Q01'' 39 False, row ''N2'' 66 False,
      row ''K2'' 95 False, row ''Q02'' 36 False, row ''N3'' 63 False, row ''K3'' 90 False,
      row ''Q03'' 33 False, row ''N4'' 60 False, row ''K4'' 85 False, row ''Q04'' 30 False,
      row ''N5'' 57 False, row ''Q05'' 27 False, row ''N6'' 54 False, row ''Q06'' 24 False,
      row ''N7'' 51 False, row ''Q07'' 21 False, row ''N8'' 48 False, row ''Q08'' 18 False,
      row ''Q09'' 15 False, row ''Q10'' 12 False, row ''Q11'' 9 False]"

section \<open>Auxiliary facts\<close>

subsection \<open>Evaluation on example rows\<close>

lemma collect_row: "collect_items (row t sc mr # ss) = entry t sc mr # collect_items ss"
  by (simp add: row_def row_of_def entry_def make_item_def dict_get_def field_get_def)

lemma collect_row_of_none: "collect_items (row_of ItemNone sc mr # ss) = collect_items ss"
  by (simp add: row_of_def)

lemma collect_row_of_empty_list: "collect_items (row_of (ItemList []) sc mr # ss) = collect_items ss"
  by (simp add: row_of_def)

lemma collect_row_of_empty_dict: "collect_items (row_of (ItemDict []) sc mr # ss) = collect_items ss"
  by (simp add: row_of_def)

lemma entry_sel:
  "relevance_score (entry t sc mr) = sc" "must_read (entry t sc mr) = mr"
  by (simp_all add: entry_def)

lemma entry_eq: "entry t sc mr = entry t' sc' mr' \<longleftrightarrow> t = t' \<and> sc = sc' \<and> mr = mr'"
  by (auto simp add: entry_def)

subsection \<open>The function in terms of its local variables\<close>

lemma build_digest_pre:
  "build_digest summaries =
     fallback (take 3 (must_know_pre summaries)) (take 7 (worth_a_look_pre summaries))
       (take 10 (quick_hits_pre summaries))"
  by (simp add: build_digest_def Let_def assemble_def must_know_pre_def worth_a_look_pre_def
      quick_hits_pre_def high_of_def mid_of_def items_of_def)

lemma set_items_of: "set (items_of summaries) = set (collect_items summaries)"
  by (simp add: items_of_def sort_items_def)

lemma high_of_floor: "60 \<le> high_of summaries"
  by (simp add: high_of_def high_threshold_def)

lemma mid_of_floor: "30 \<le> mid_of summaries"
  by (simp add: mid_of_def mid_threshold_def)

lemma mid_le_high: "mid_of summaries \<le> high_of summaries"
proof (cases "0 \<le> max_score (items_of summaries)")
  case True
  then have "rat_of_int (max_score (items_of summaries)) * (4 / 10)
           \<le> rat_of_int (max_score (items_of summaries)) * (7 / 10)"
    by simp
  then show ?thesis
    by (simp add: mid_of_def high_of_def mid_threshold_def high_threshold_def max_def)
next
  case False
  then have "rat_of_int (max_score (items_of summaries)) * (4 / 10) \<le> 0"
    by (simp add: mult_le_0_iff)
  then show ?thesis
    by (simp add: mid_of_def high_of_def mid_threshold_def high_threshold_def max_def)
qed

lemma in_must_know_pre:
  "x \<in> set (must_know_pre summaries) \<longleftrightarrow>
     x \<in> set (collect_items summaries)
     \<and> (must_read x \<or> high_of summaries \<le> of_int (relevance_score x))"
  by (auto simp add: must_know_pre_def must_know_candidates_def set_items_of)

lemma in_worth_a_look_pre:
  "x \<in> set (worth_a_look_pre summaries) \<longleftrightarrow>
     x \<in> set (collect_items summaries) \<and> \<not> must_read x
     \<and> mid_of summaries \<le> of_int (relevance_score x)
     \<and> of_int (relevance_score x) < high_of summaries"
  by (auto simp add: worth_a_look_pre_def worth_a_look_candidates_def set_items_of)

lemma in_quick_hits_pre:
  "x \<in> set (quick_hits_pre summaries) \<longleftrightarrow>
     x \<in> set (collect_items summaries) \<and> 0 < relevance_score x
     \<and> of_int (relevance_score x) < mid_of summaries"
  by (auto simp add: quick_hits_pre_def quick_hits_candidates_def set_items_of)

subsection \<open>Order\<close>

lemma sorted_sort_items:
  "sorted_wrt (\<lambda>a b. relevance_score b \<le> relevance_score a) (sort_items xs)"
proof -
  have "sorted (map (\<lambda>i. - relevance_score i) (sort_items xs))"
    unfolding sort_items_def by (rule sorted_sort_key)
  then show ?thesis by (simp add: sorted_map)
qed

lemma sort_items_stable:
  "filter (\<lambda>i. relevance_score i = k) (sort_items xs) = filter (\<lambda>i. relevance_score i = k) xs"
proof -
  have "filter (\<lambda>i. - relevance_score i = - k) (sort_items xs)
      = filter (\<lambda>i. - relevance_score i = - k) xs"
    unfolding sort_items_def by (rule sort_key_stable)
  then show ?thesis by simp
qed

lemma subseq_take: "subseq (take n xs) xs"
  by (rule prefix_imp_subseq) (rule take_is_prefix)

lemma subseq_drop: "subseq (drop n xs) xs"
  by (rule suffix_imp_subseq) (rule suffix_drop)

lemma subseq_set: "subseq xs ys \<Longrightarrow> x \<in> set xs \<Longrightarrow> x \<in> set ys"
  using list_emb_set [of "(=)" xs ys x] by auto

lemma subseq_sorted_wrt: "subseq xs ys \<Longrightarrow> sorted_wrt R ys \<Longrightarrow> sorted_wrt R xs"
proof (induction rule: list_emb.induct)
  case (list_emb_Nil ys)
  then show ?case by simp
next
  case (list_emb_Cons xs ys y)
  then show ?case by simp
next
  case (list_emb_Cons2 x y xs ys)
  then have "\<forall>t \<in> set xs. t \<in> set ys" by (auto dest: subseq_set)
  with list_emb_Cons2 show ?case by auto
qed

lemma sorted_take_drop:
  assumes "sorted_wrt R xs" and "x \<in> set (take n xs)" and "y \<in> set (drop n xs)"
  shows "R x y"
proof -
  from assms(1) have "sorted_wrt R (take n xs @ drop n xs)" by simp
  with assms(2,3) show ?thesis unfolding sorted_wrt_append by blast
qed

lemma fallback_subseq:
  assumes "subseq mk xs" and "subseq wl xs" and "subseq qh xs"
  shows "subseq (must_know (fallback mk wl qh)) xs"
    and "subseq (worth_a_look (fallback mk wl qh)) xs"
    and "subseq (quick_hits (fallback mk wl qh)) xs"
proof -
  have "subseq (take 2 wl) xs"
    by (rule subseq_order.trans [OF subseq_take assms(2)])
  with assms(1) show "subseq (must_know (fallback mk wl qh)) xs"
    by (simp add: fallback_def)
  have "subseq (drop 2 wl) xs"
    by (rule subseq_order.trans [OF subseq_drop assms(2)])
  with assms(2) show "subseq (worth_a_look (fallback mk wl qh)) xs"
    by (simp add: fallback_def)
  from assms(3) show "subseq (quick_hits (fallback mk wl qh)) xs"
    by (simp add: fallback_def)
qed

lemma fallback_members:
  "x \<in> set (must_know (fallback mk wl qh)) \<Longrightarrow> x \<in> set mk \<or> x \<in> set wl"
  "x \<in> set (worth_a_look (fallback mk wl qh)) \<Longrightarrow> x \<in> set wl"
  "x \<in> set (quick_hits (fallback mk wl qh)) \<Longrightarrow> x \<in> set qh"
  by (auto simp add: fallback_def dest: in_set_takeD in_set_dropD split: if_splits)

lemma pre_subseq:
  "subseq (take 3 (must_know_pre summaries)) (items_of summaries)"
  "subseq (take 7 (worth_a_look_pre summaries)) (items_of summaries)"
  "subseq (take 10 (quick_hits_pre summaries)) (items_of summaries)"
  unfolding must_know_pre_def worth_a_look_pre_def quick_hits_pre_def
    must_know_candidates_def worth_a_look_candidates_def quick_hits_candidates_def
  by (rule subseq_order.trans [OF subseq_take subseq_filter_left])+

lemma tiers_subseq:
  "subseq (must_know (build_digest summaries)) (items_of summaries)"
  "subseq (worth_a_look (build_digest summaries)) (items_of summaries)"
  "subseq (quick_hits (build_digest summaries)) (items_of summaries)"
  unfolding build_digest_pre
  by (rule fallback_subseq [OF pre_subseq])+

lemma pre_sorted:
  "sorted_wrt (\<lambda>a b. relevance_score b \<le> relevance_score a) (must_know_pre summaries)"
  "sorted_wrt (\<lambda>a b. relevance_score b \<le> relevance_score a) (worth_a_look_pre summaries)"
  "sorted_wrt (\<lambda>a b. relevance_score b \<le> relevance_score a) (quick_hits_pre summaries)"
  unfolding must_know_pre_def worth_a_look_pre_def quick_hits_pre_def
    must_know_candidates_def worth_a_look_candidates_def quick_hits_candidates_def items_of_def
  by (rule sorted_wrt_filter [OF sorted_sort_items])+

lemma subseq_stable:
  assumes "subseq t (sort_items xs)"
  shows "subseq (filter (\<lambda>i. relevance_score i = k) t) xs"
proof -
  have "subseq (filter (\<lambda>i. relevance_score i = k) t)
               (filter (\<lambda>i. relevance_score i = k) (sort_items xs))"
    using assms by (rule subseq_filter)
  then have "subseq (filter (\<lambda>i. relevance_score i = k) t)
               (filter (\<lambda>i. relevance_score i = k) xs)"
    by (simp add: sort_items_stable)
  then show ?thesis
    by (rule subseq_order.trans) (rule subseq_filter_left)
qed

subsection \<open>The example pools, evaluated\<close>

lemmas items_eval =
  items_of_def sort_items_def collect_row collect_row_of_none collect_row_of_empty_list
  collect_row_of_empty_dict entry_sel

lemmas threshold_eval = high_of_def mid_of_def high_threshold_def mid_threshold_def max_score_def

lemmas pre_eval =
  must_know_pre_def worth_a_look_pre_def quick_hits_pre_def must_know_candidates_def
  worth_a_look_candidates_def quick_hits_candidates_def entry_sel

lemma quiet_items:
  "items_of quiet_pool = [entry ''A'' 50 False, entry ''B'' 40 False, entry ''C'' 35 False]"
  by (simp add: quiet_pool_def items_eval del: collect_items.simps(2))

lemma quiet_thresholds: "high_of quiet_pool = 60" "mid_of quiet_pool = 30"
  by (simp_all add: threshold_eval quiet_items entry_sel)

lemma quiet_pre:
  "must_know_pre quiet_pool = []"
  "worth_a_look_pre quiet_pool = [entry ''A'' 50 False, entry ''B'' 40 False, entry ''C'' 35 False]"
  "quick_hits_pre quiet_pool = []"
  by (simp_all add: pre_eval quiet_items quiet_thresholds)

lemma quiet_digest:
  "build_digest quiet_pool =
     \<lparr> must_know = [entry ''A'' 50 False, entry ''B'' 40 False],
       worth_a_look = [entry ''C'' 35 False], quick_hits = [] \<rparr>"
  by (simp add: build_digest_pre quiet_pre fallback_def)

lemma crowded_items:
  "items_of crowded_pool =
     [entry ''A'' 100 False, entry ''B'' 95 False, entry ''C'' 90 False, entry ''D'' 20 True]"
  by (simp add: crowded_pool_def items_eval del: collect_items.simps(2))

lemma crowded_collect:
  "collect_items crowded_pool =
     [entry ''A'' 100 False, entry ''B'' 95 False, entry ''C'' 90 False, entry ''D'' 20 True]"
  by (simp add: crowded_pool_def collect_row del: collect_items.simps(2))

lemma crowded_thresholds: "high_of crowded_pool = 70" "mid_of crowded_pool = 40"
  by (simp_all add: threshold_eval crowded_items entry_sel)

lemma crowded_pre:
  "must_know_pre crowded_pool =
     [entry ''A'' 100 False, entry ''B'' 95 False, entry ''C'' 90 False, entry ''D'' 20 True]"
  "worth_a_look_pre crowded_pool = []"
  "quick_hits_pre crowded_pool = [entry ''D'' 20 True]"
  by (simp_all add: pre_eval crowded_items crowded_thresholds)

lemma crowded_digest:
  "build_digest crowded_pool =
     \<lparr> must_know = [entry ''A'' 100 False, entry ''B'' 95 False, entry ''C'' 90 False],
       worth_a_look = [], quick_hits = [entry ''D'' 20 True] \<rparr>"
  by (simp add: build_digest_pre crowded_pre fallback_def)

lemma silent_items: "items_of [row ''Z'' 0 False] = [entry ''Z'' 0 False]"
  by (simp add: items_eval del: collect_items.simps(2))

lemma silent_thresholds: "high_of [row ''Z'' 0 False] = 60" "mid_of [row ''Z'' 0 False] = 30"
  by (simp_all add: threshold_eval silent_items entry_sel)

lemma silent_pre:
  "must_know_pre [row ''Z'' 0 False] = []"
  "worth_a_look_pre [row ''Z'' 0 False] = []"
  "quick_hits_pre [row ''Z'' 0 False] = []"
  by (simp_all add: pre_eval silent_items silent_thresholds)

lemma silent_digest:
  "build_digest [row ''Z'' 0 False] = \<lparr> must_know = [], worth_a_look = [], quick_hits = [] \<rparr>"
  by (simp add: build_digest_pre silent_pre fallback_def)

lemma overflow_items:
  "items_of overflow_pool =
     [entry ''A'' 100 False, entry ''B'' 95 False, entry ''C'' 90 False, entry ''D'' 85 False]"
  by (simp add: overflow_pool_def items_eval del: collect_items.simps(2))

lemma overflow_thresholds: "high_of overflow_pool = 70" "mid_of overflow_pool = 40"
  by (simp_all add: threshold_eval overflow_items entry_sel)

lemma overflow_pre:
  "must_know_pre overflow_pool =
     [entry ''A'' 100 False, entry ''B'' 95 False, entry ''C'' 90 False, entry ''D'' 85 False]"
  "worth_a_look_pre overflow_pool = []"
  "quick_hits_pre overflow_pool = []"
  by (simp_all add: pre_eval overflow_items overflow_thresholds)

lemma overflow_digest:
  "build_digest overflow_pool =
     \<lparr> must_know = [entry ''A'' 100 False, entry ''B'' 95 False, entry ''C'' 90 False],
       worth_a_look = [], quick_hits = [] \<rparr>"
  by (simp add: build_digest_pre overflow_pre fallback_def)

lemma flagged_items:
  "items_of flagged_pool = [entry ''A'' 80 False, entry ''D'' 20 True, entry ''E'' 0 True]"
  by (simp add: flagged_pool_def items_eval del: collect_items.simps(2))

lemma flagged_collect:
  "collect_items flagged_pool = [entry ''A'' 80 False, entry ''D'' 20 True, entry ''E'' 0 True]"
  by (simp add: flagged_pool_def collect_row del: collect_items.simps(2))

lemma flagged_thresholds: "high_of flagged_pool = 60" "mid_of flagged_pool = 32"
  by (simp_all add: threshold_eval flagged_items entry_sel)

lemma flagged_pre:
  "must_know_pre flagged_pool = [entry ''A'' 80 False, entry ''D'' 20 True, entry ''E'' 0 True]"
  "worth_a_look_pre flagged_pool = []"
  "quick_hits_pre flagged_pool = [entry ''D'' 20 True]"
  by (simp_all add: pre_eval flagged_items flagged_thresholds)

lemma flagged_digest:
  "build_digest flagged_pool =
     \<lparr> must_know = [entry ''A'' 80 False, entry ''D'' 20 True, entry ''E'' 0 True],
       worth_a_look = [], quick_hits = [entry ''D'' 20 True] \<rparr>"
  by (simp add: build_digest_pre flagged_pre fallback_def)

lemma tied_items:
  "items_of tied_pool =
     [entry ''B'' 80 False, entry ''D'' 80 False, entry ''A'' 50 False, entry ''C'' 50 False]"
  by (simp add: tied_pool_def items_eval del: collect_items.simps(2))

lemma tied_collect:
  "collect_items tied_pool =
     [entry ''A'' 50 False, entry ''B'' 80 False, entry ''C'' 50 False, entry ''D'' 80 False]"
  by (simp add: tied_pool_def collect_row del: collect_items.simps(2))

lemma tied_thresholds: "high_of tied_pool = 60" "mid_of tied_pool = 32"
  by (simp_all add: threshold_eval tied_items entry_sel)

lemma tied_pre:
  "must_know_pre tied_pool = [entry ''B'' 80 False, entry ''D'' 80 False]"
  "worth_a_look_pre tied_pool = [entry ''A'' 50 False, entry ''C'' 50 False]"
  "quick_hits_pre tied_pool = []"
  by (simp_all add: pre_eval tied_items tied_thresholds)

lemma tied_digest:
  "build_digest tied_pool =
     \<lparr> must_know = [entry ''B'' 80 False, entry ''D'' 80 False],
       worth_a_look = [entry ''A'' 50 False, entry ''C'' 50 False], quick_hits = [] \<rparr>"
  by (simp add: build_digest_pre tied_pre fallback_def)

lemma busy_items:
  "items_of busy_pool =
     [entry ''K1'' 100 False, entry ''K2'' 95 False, entry ''K3'' 90 False,
      entry ''K4'' 85 False, entry ''N1'' 69 False, entry ''N2'' 66 False,
      entry ''N3'' 63 False, entry ''N4'' 60 False, entry ''N5'' 57 False,
      entry ''N6'' 54 False, entry ''N7'' 51 False, entry ''N8'' 48 False,
      entry ''Q01'' 39 False, entry ''Q02'' 36 False, entry ''Q03'' 33 False,
      entry ''Q04'' 30 False, entry ''Q05'' 27 False, entry ''Q06'' 24 False,
      entry ''Q07'' 21 False, entry ''Q08'' 18 False, entry ''Q09'' 15 False,
      entry ''Q10'' 12 False, entry ''Q11'' 9 False]"
  by (simp add: busy_pool_def items_eval del: collect_items.simps(2))

lemma busy_thresholds: "high_of busy_pool = 70" "mid_of busy_pool = 40"
  by (simp_all add: threshold_eval busy_items entry_sel)

lemma busy_pre:
  "must_know_pre busy_pool =
     [entry ''K1'' 100 False, entry ''K2'' 95 False, entry ''K3'' 90 False,
      entry ''K4'' 85 False]"
  "worth_a_look_pre busy_pool =
     [entry ''N1'' 69 False, entry ''N2'' 66 False, entry ''N3'' 63 False,
      entry ''N4'' 60 False, entry ''N5'' 57 False, entry ''N6'' 54 False,
      entry ''N7'' 51 False, entry ''N8'' 48 False]"
  "quick_hits_pre busy_pool =
     [entry ''Q01'' 39 False, entry ''Q02'' 36 False, entry ''Q03'' 33 False,
      entry ''Q04'' 30 False, entry ''Q05'' 27 False, entry ''Q06'' 24 False,
      entry ''Q07'' 21 False, entry ''Q08'' 18 False, entry ''Q09'' 15 False,
      entry ''Q10'' 12 False, entry ''Q11'' 9 False]"
  by (simp_all add: pre_eval busy_items busy_thresholds)

lemma busy_digest:
  "build_digest busy_pool =
     \<lparr> must_know = [entry ''K1'' 100 False, entry ''K2'' 95 False, entry ''K3'' 90 False],
       worth_a_look =
         [entry ''N1'' 69 False, entry ''N2'' 66 False, entry ''N3'' 63 False,
          entry ''N4'' 60 False, entry ''N5'' 57 False, entry ''N6'' 54 False,
          entry ''N7'' 51 False],
       quick_hits =
         [entry ''Q01'' 39 False, entry ''Q02'' 36 False, entry ''Q03'' 33 False,
          entry ''Q04'' 30 False, entry ''Q05'' 27 False, entry ''Q06'' 24 False,
          entry ''Q07'' 21 False, entry ''Q08'' 18 False, entry ''Q09'' 15 False,
          entry ''Q10'' 12 False] \<rparr>"
  by (simp add: build_digest_pre busy_pre fallback_def)

lemma zero_flag_items: "items_of [row ''A'' 0 True] = [entry ''A'' 0 True]"
  by (simp add: items_eval del: collect_items.simps(2))

lemma zero_flag_thresholds: "high_of [row ''A'' 0 True] = 60" "mid_of [row ''A'' 0 True] = 30"
  by (simp_all add: threshold_eval zero_flag_items entry_sel)

lemma zero_flag_pre:
  "must_know_pre [row ''A'' 0 True] = [entry ''A'' 0 True]"
  "worth_a_look_pre [row ''A'' 0 True] = []"
  "quick_hits_pre [row ''A'' 0 True] = []"
  by (simp_all add: pre_eval zero_flag_items zero_flag_thresholds)

lemma zero_flag_digest:
  "build_digest [row ''A'' 0 True] =
     \<lparr> must_know = [entry ''A'' 0 True], worth_a_look = [], quick_hits = [] \<rparr>"
  by (simp add: build_digest_pre zero_flag_pre fallback_def)

lemma low_flag_items: "items_of [row ''A'' 20 True] = [entry ''A'' 20 True]"
  by (simp add: items_eval del: collect_items.simps(2))

lemma low_flag_thresholds: "high_of [row ''A'' 20 True] = 60" "mid_of [row ''A'' 20 True] = 30"
  by (simp_all add: threshold_eval low_flag_items entry_sel)

lemma low_flag_pre:
  "must_know_pre [row ''A'' 20 True] = [entry ''A'' 20 True]"
  "worth_a_look_pre [row ''A'' 20 True] = []"
  "quick_hits_pre [row ''A'' 20 True] = [entry ''A'' 20 True]"
  by (simp_all add: pre_eval low_flag_items low_flag_thresholds)

lemma low_flag_digest:
  "build_digest [row ''A'' 20 True] =
     \<lparr> must_know = [entry ''A'' 20 True], worth_a_look = [],
       quick_hits = [entry ''A'' 20 True] \<rparr>"
  by (simp add: build_digest_pre low_flag_pre fallback_def)

lemma loud_items: "items_of loud_pool = [entry ''A'' 200 False, entry ''B'' 75 False]"
  by (simp add: loud_pool_def items_eval del: collect_items.simps(2))

lemma loud_thresholds: "high_of loud_pool = 140" "mid_of loud_pool = 80"
  by (simp_all add: threshold_eval loud_items entry_sel)

lemma loud_pre:
  "must_know_pre loud_pool = [entry ''A'' 200 False]"
  "worth_a_look_pre loud_pool = []"
  "quick_hits_pre loud_pool = [entry ''B'' 75 False]"
  by (simp_all add: pre_eval loud_items loud_thresholds)

lemma loud_digest:
  "build_digest loud_pool =
     \<lparr> must_know = [entry ''A'' 200 False], worth_a_look = [],
       quick_hits = [entry ''B'' 75 False] \<rparr>"
  by (simp add: build_digest_pre loud_pre fallback_def)

lemma loud_normalised:
  "map normalise_row loud_pool = [row ''A'' 100 False, row ''B'' 75 False]"
  by (simp add: loud_pool_def row_def row_of_def normalise_row_def clamp_score_def field_get_def)

lemma clamped_items:
  "items_of [row ''A'' 100 False, row ''B'' 75 False] =
     [entry ''A'' 100 False, entry ''B'' 75 False]"
  by (simp add: items_eval del: collect_items.simps(2))

lemma clamped_thresholds:
  "high_of [row ''A'' 100 False, row ''B'' 75 False] = 70"
  "mid_of [row ''A'' 100 False, row ''B'' 75 False] = 40"
  by (simp_all add: threshold_eval clamped_items entry_sel)

lemma clamped_pre:
  "must_know_pre [row ''A'' 100 False, row ''B'' 75 False] =
     [entry ''A'' 100 False, entry ''B'' 75 False]"
  "worth_a_look_pre [row ''A'' 100 False, row ''B'' 75 False] = []"
  "quick_hits_pre [row ''A'' 100 False, row ''B'' 75 False] = []"
  by (simp_all add: pre_eval clamped_items clamped_thresholds)

lemma clamped_digest:
  "build_digest [row ''A'' 100 False, row ''B'' 75 False] =
     \<lparr> must_know = [entry ''A'' 100 False, entry ''B'' 75 False], worth_a_look = [],
       quick_hits = [] \<rparr>"
  by (simp add: build_digest_pre clamped_pre fallback_def)

lemma orphan_items: "items_of orphan_pool = [entry ''A'' 35 False]"
  by (simp add: orphan_pool_def items_eval del: collect_items.simps(2))

lemma orphan_thresholds: "high_of orphan_pool = 60" "mid_of orphan_pool = 30"
  by (simp_all add: threshold_eval orphan_items entry_sel)

lemma orphan_pre:
  "must_know_pre orphan_pool = []"
  "worth_a_look_pre orphan_pool = [entry ''A'' 35 False]"
  "quick_hits_pre orphan_pool = []"
  by (simp_all add: pre_eval orphan_items orphan_thresholds)

lemma orphan_digest:
  "build_digest orphan_pool =
     \<lparr> must_know = [entry ''A'' 35 False], worth_a_look = [], quick_hits = [] \<rparr>"
  by (simp add: build_digest_pre orphan_pre fallback_def)

lemma orphan_pool_max: "pool_max_score orphan_pool = 100"
  by (simp add: pool_max_score_def orphan_pool_def row_def row_of_def field_get_def)

section \<open>The claims\<close>

subsection \<open>Empty pools\<close>

lemma collect_items_no_item:
  "\<forall>s \<in> set summaries. pick_item (s_item s) = None \<Longrightarrow> collect_items summaries = []"
  by (induction summaries) simp_all

lemma build_digest_no_items:
  assumes "collect_items summaries = []"
  shows "build_digest summaries = \<lparr> must_know = [], worth_a_look = [], quick_hits = [] \<rparr>"
  using assms
  by (simp add: build_digest_def sort_items_def assemble_def fallback_def
      must_know_candidates_def worth_a_look_candidates_def quick_hits_candidates_def)

text \<open>
  Claim C9. \<^const>\<open>build_digest\<close> is a total function and the model has no error branch:
  every field is read with a default. On the empty pool, and on every pool none of whose
  entries carries an item record, it returns the digest whose three tiers are empty.
\<close>

theorem empty_pool_digest:
  "build_digest [] = \<lparr> must_know = [], worth_a_look = [], quick_hits = [] \<rparr>
   \<and> ((\<forall>s \<in> set summaries. pick_item (s_item s) = None) \<longrightarrow>
        build_digest summaries = \<lparr> must_know = [], worth_a_look = [], quick_hits = [] \<rparr>)"
  using collect_items_no_item [of summaries] build_digest_no_items [of summaries]
    build_digest_no_items [of "[]"]
  by simp

theorem empty_pool_digest_witness:
  "pick_item (s_item (row_of ItemNone (Some 90) True)) = None
   \<and> pick_item (s_item (row_of (ItemList []) (Some 70) False)) = None
   \<and> pick_item (s_item (row_of (ItemDict []) None False)) = None
   \<and> build_digest [row_of ItemNone (Some 90) True, row_of (ItemList []) (Some 70) False,
        row_of (ItemDict []) None False]
     = \<lparr> must_know = [], worth_a_look = [], quick_hits = [] \<rparr>"
  using empty_pool_digest [of "[row_of ItemNone (Some 90) True,
    row_of (ItemList []) (Some 70) False, row_of (ItemDict []) None False]"]
  by (simp add: row_of_def)

subsection \<open>Caps\<close>

lemma kept_above_cut:
  assumes "sorted_wrt (\<lambda>a b. relevance_score b \<le> relevance_score a) c"
  shows "\<forall>x \<in> set (take n c). \<forall>y \<in> set (drop n c). relevance_score y \<le> relevance_score x"
  using sorted_take_drop [OF assms] by blast

lemma fallback_fires:
  assumes "must_know_pre summaries = []" and "worth_a_look_pre summaries \<noteq> []"
  shows "build_digest summaries =
     \<lparr> must_know = take 2 (worth_a_look_pre summaries),
       worth_a_look = drop 2 (take 7 (worth_a_look_pre summaries)),
       quick_hits = take 10 (quick_hits_pre summaries) \<rparr>"
  using assms by (simp add: build_digest_pre fallback_def)

lemma fallback_idle:
  assumes "must_know_pre summaries \<noteq> [] \<or> worth_a_look_pre summaries = []"
  shows "build_digest summaries =
     \<lparr> must_know = take 3 (must_know_pre summaries),
       worth_a_look = take 7 (worth_a_look_pre summaries),
       quick_hits = take 10 (quick_hits_pre summaries) \<rparr>"
  using assms by (auto simp add: build_digest_pre fallback_def)

lemma returned_must_know_above_cut:
  "\<forall>x \<in> set (must_know (build_digest summaries)).
     \<forall>y \<in> set (drop 3 (must_know_pre summaries)). relevance_score y \<le> relevance_score x"
proof (cases "must_know_pre summaries = []")
  case True
  then show ?thesis by simp
next
  case False
  then have "must_know (build_digest summaries) = take 3 (must_know_pre summaries)"
    by (simp add: fallback_idle)
  then show ?thesis
    using kept_above_cut [OF pre_sorted(1), of 3 summaries] by simp
qed

lemma returned_worth_a_look_sliced:
  "set (worth_a_look (build_digest summaries)) \<subseteq> set (take 7 (worth_a_look_pre summaries))"
  unfolding build_digest_pre by (auto dest: fallback_members)

text \<open>
  Claim C8. The returned tiers hold at most 3, 7 and 10 items, the fallback included.
  Each returned tier is a slice of its score-sorted list: the third tier is the first 10
  of its list; when the fallback does not fire the top tier is the first 3 and the
  second tier the first 7 of their lists; when it fires, the top tier followed by the
  second tier is the first 7 of the second list, the top tier being its first 2. So no
  item cut off from a list scores higher than an item of that list that was returned or
  kept by the slice.
\<close>

theorem cap_enforcement:
  "length (must_know (build_digest summaries)) \<le> 3
   \<and> length (worth_a_look (build_digest summaries)) \<le> 7
   \<and> length (quick_hits (build_digest summaries)) \<le> 10
   \<and> quick_hits (build_digest summaries) = take 10 (quick_hits_pre summaries)
   \<and> (must_know_pre summaries \<noteq> [] \<or> worth_a_look_pre summaries = [] \<longrightarrow>
        must_know (build_digest summaries) = take 3 (must_know_pre summaries)
        \<and> worth_a_look (build_digest summaries) = take 7 (worth_a_look_pre summaries))
   \<and> (must_know_pre summaries = [] \<and> worth_a_look_pre summaries \<noteq> [] \<longrightarrow>
        must_know (build_digest summaries) @ worth_a_look (build_digest summaries)
          = take 7 (worth_a_look_pre summaries)
        \<and> must_know (build_digest summaries) = take 2 (worth_a_look_pre summaries))
   \<and> sorted_wrt (\<lambda>a b. relevance_score b \<le> relevance_score a) (must_know_pre summaries)
   \<and> sorted_wrt (\<lambda>a b. relevance_score b \<le> relevance_score a) (worth_a_look_pre summaries)
   \<and> sorted_wrt (\<lambda>a b. relevance_score b \<le> relevance_score a) (quick_hits_pre summaries)
   \<and> (\<forall>x \<in> set (must_know (build_digest summaries)).
        \<forall>y \<in> set (drop 3 (must_know_pre summaries)). relevance_score y \<le> relevance_score x)
   \<and> (\<forall>x \<in> set (worth_a_look (build_digest summaries)).
        \<forall>y \<in> set (drop 7 (worth_a_look_pre summaries)). relevance_score y \<le> relevance_score x)
   \<and> (\<forall>x \<in> set (quick_hits (build_digest summaries)).
        \<forall>y \<in> set (drop 10 (quick_hits_pre summaries)). relevance_score y \<le> relevance_score x)
   \<and> (\<forall>x \<in> set (take 3 (must_know_pre summaries)).
        \<forall>y \<in> set (drop 3 (must_know_pre summaries)). relevance_score y \<le> relevance_score x)
   \<and> (\<forall>x \<in> set (take 7 (worth_a_look_pre summaries)).
        \<forall>y \<in> set (drop 7 (worth_a_look_pre summaries)). relevance_score y \<le> relevance_score x)
   \<and> (\<forall>x \<in> set (take 10 (quick_hits_pre summaries)).
        \<forall>y \<in> set (drop 10 (quick_hits_pre summaries)). relevance_score y \<le> relevance_score x)"
proof -
  have len: "length (must_know (build_digest summaries)) \<le> 3"
    "length (worth_a_look (build_digest summaries)) \<le> 7"
    "length (quick_hits (build_digest summaries)) \<le> 10"
    unfolding build_digest_pre by (auto simp add: fallback_def)
  have qh: "quick_hits (build_digest summaries) = take 10 (quick_hits_pre summaries)"
    unfolding build_digest_pre by (simp add: fallback_def)
  have idle: "must_know (build_digest summaries) = take 3 (must_know_pre summaries)
      \<and> worth_a_look (build_digest summaries) = take 7 (worth_a_look_pre summaries)"
    if "must_know_pre summaries \<noteq> [] \<or> worth_a_look_pre summaries = []"
    using fallback_idle [OF that] by simp
  have fires: "must_know (build_digest summaries) @ worth_a_look (build_digest summaries)
        = take 7 (worth_a_look_pre summaries)
      \<and> must_know (build_digest summaries) = take 2 (worth_a_look_pre summaries)"
    if "must_know_pre summaries = [] \<and> worth_a_look_pre summaries \<noteq> []"
  proof -
    from that have digest: "build_digest summaries =
       \<lparr> must_know = take 2 (worth_a_look_pre summaries),
         worth_a_look = drop 2 (take 7 (worth_a_look_pre summaries)),
         quick_hits = take 10 (quick_hits_pre summaries) \<rparr>"
      by (simp add: fallback_fires)
    have "take 2 (worth_a_look_pre summaries) = take 2 (take 7 (worth_a_look_pre summaries))"
      by simp
    then have "take 2 (worth_a_look_pre summaries) @ drop 2 (take 7 (worth_a_look_pre summaries))
        = take 7 (worth_a_look_pre summaries)"
      by (simp only: append_take_drop_id)
    with digest show ?thesis by simp
  qed
  have wl: "\<forall>x \<in> set (worth_a_look (build_digest summaries)).
      \<forall>y \<in> set (drop 7 (worth_a_look_pre summaries)). relevance_score y \<le> relevance_score x"
    using returned_worth_a_look_sliced [of summaries]
      kept_above_cut [OF pre_sorted(2), of 7 summaries]
    by blast
  have qh_cut: "\<forall>x \<in> set (quick_hits (build_digest summaries)).
      \<forall>y \<in> set (drop 10 (quick_hits_pre summaries)). relevance_score y \<le> relevance_score x"
    unfolding qh by (rule kept_above_cut [OF pre_sorted(3)])
  show ?thesis
    using len qh idle fires pre_sorted [of summaries] returned_must_know_above_cut [of summaries]
      wl qh_cut kept_above_cut [OF pre_sorted(1), of 3 summaries]
      kept_above_cut [OF pre_sorted(2), of 7 summaries]
      kept_above_cut [OF pre_sorted(3), of 10 summaries]
    by blast
qed

theorem cap_enforcement_witness:
  "length (must_know (build_digest busy_pool)) = 3
   \<and> length (worth_a_look (build_digest busy_pool)) = 7
   \<and> length (quick_hits (build_digest busy_pool)) = 10
   \<and> must_know_pre busy_pool \<noteq> []
   \<and> must_know (build_digest busy_pool) = take 3 (must_know_pre busy_pool)
   \<and> worth_a_look (build_digest busy_pool) = take 7 (worth_a_look_pre busy_pool)
   \<and> quick_hits (build_digest busy_pool) = take 10 (quick_hits_pre busy_pool)
   \<and> entry ''K3'' 90 False \<in> set (must_know (build_digest busy_pool))
   \<and> entry ''K4'' 85 False \<in> set (drop 3 (must_know_pre busy_pool))
   \<and> relevance_score (entry ''K4'' 85 False) \<le> relevance_score (entry ''K3'' 90 False)
   \<and> entry ''N7'' 51 False \<in> set (worth_a_look (build_digest busy_pool))
   \<and> entry ''N8'' 48 False \<in> set (drop 7 (worth_a_look_pre busy_pool))
   \<and> relevance_score (entry ''N8'' 48 False) \<le> relevance_score (entry ''N7'' 51 False)
   \<and> entry ''Q10'' 12 False \<in> set (quick_hits (build_digest busy_pool))
   \<and> entry ''Q11'' 9 False \<in> set (drop 10 (quick_hits_pre busy_pool))
   \<and> relevance_score (entry ''Q11'' 9 False) \<le> relevance_score (entry ''Q10'' 12 False)
   \<and> must_know_pre quiet_pool = []
   \<and> worth_a_look_pre quiet_pool \<noteq> []
   \<and> must_know (build_digest quiet_pool) = take 2 (worth_a_look_pre quiet_pool)
   \<and> must_know (build_digest quiet_pool) @ worth_a_look (build_digest quiet_pool)
       = take 7 (worth_a_look_pre quiet_pool)"
  using cap_enforcement [of busy_pool] cap_enforcement [of quiet_pool]
  by (simp add: busy_pre busy_digest quiet_pre quiet_digest entry_sel)

subsection \<open>Order of the tiers\<close>

text \<open>
  Claim C7. Every returned tier is ordered by non-increasing score, and the items of a
  tier that share a score stand in the order in which the pool delivered them: they form
  a subsequence of the list of items collected from the pool.
\<close>

theorem tier_ordering:
  "sorted_wrt (\<lambda>a b. relevance_score b \<le> relevance_score a) (must_know (build_digest summaries))
   \<and> sorted_wrt (\<lambda>a b. relevance_score b \<le> relevance_score a)
        (worth_a_look (build_digest summaries))
   \<and> sorted_wrt (\<lambda>a b. relevance_score b \<le> relevance_score a)
        (quick_hits (build_digest summaries))
   \<and> subseq (filter (\<lambda>i. relevance_score i = k) (must_know (build_digest summaries)))
        (collect_items summaries)
   \<and> subseq (filter (\<lambda>i. relevance_score i = k) (worth_a_look (build_digest summaries)))
        (collect_items summaries)
   \<and> subseq (filter (\<lambda>i. relevance_score i = k) (quick_hits (build_digest summaries)))
        (collect_items summaries)"
proof -
  have sorted: "sorted_wrt (\<lambda>a b. relevance_score b \<le> relevance_score a) (items_of summaries)"
    unfolding items_of_def by (rule sorted_sort_items)
  have "sorted_wrt (\<lambda>a b. relevance_score b \<le> relevance_score a)
          (must_know (build_digest summaries))"
    by (rule subseq_sorted_wrt [OF tiers_subseq(1) sorted])
  moreover have "sorted_wrt (\<lambda>a b. relevance_score b \<le> relevance_score a)
          (worth_a_look (build_digest summaries))"
    by (rule subseq_sorted_wrt [OF tiers_subseq(2) sorted])
  moreover have "sorted_wrt (\<lambda>a b. relevance_score b \<le> relevance_score a)
          (quick_hits (build_digest summaries))"
    by (rule subseq_sorted_wrt [OF tiers_subseq(3) sorted])
  moreover have "subseq (filter (\<lambda>i. relevance_score i = k) (must_know (build_digest summaries)))
          (collect_items summaries)"
    by (rule subseq_stable) (rule tiers_subseq(1) [unfolded items_of_def])
  moreover have "subseq (filter (\<lambda>i. relevance_score i = k)
          (worth_a_look (build_digest summaries))) (collect_items summaries)"
    by (rule subseq_stable) (rule tiers_subseq(2) [unfolded items_of_def])
  moreover have "subseq (filter (\<lambda>i. relevance_score i = k)
          (quick_hits (build_digest summaries))) (collect_items summaries)"
    by (rule subseq_stable) (rule tiers_subseq(3) [unfolded items_of_def])
  ultimately show ?thesis by blast
qed

theorem tier_ordering_witness:
  "must_know (build_digest tied_pool) = [entry ''B'' 80 False, entry ''D'' 80 False]
   \<and> worth_a_look (build_digest tied_pool) = [entry ''A'' 50 False, entry ''C'' 50 False]
   \<and> collect_items tied_pool =
       [entry ''A'' 50 False, entry ''B'' 80 False, entry ''C'' 50 False, entry ''D'' 80 False]
   \<and> subseq [entry ''B'' 80 False, entry ''D'' 80 False] (collect_items tied_pool)
   \<and> subseq [entry ''A'' 50 False, entry ''C'' 50 False] (collect_items tied_pool)"
  using tier_ordering [of tied_pool 80] tier_ordering [of tied_pool 50]
  by (simp add: tied_digest tied_collect entry_sel)

subsection \<open>Fallback\<close>

text \<open>
  Claim C6. When the top tier is empty after the slices and the second tier is not, the
  first two items of the second tier become the top tier and leave the second; the top
  tier of the result is then non-empty. When the second tier is empty the fallback does
  not fire, and neither does it when the top tier has an item: the sliced lists are
  returned as they are. The third tier is never touched.
\<close>

theorem fallback_promotion:
  "(take 3 (must_know_pre summaries) = [] \<and> take 7 (worth_a_look_pre summaries) \<noteq> [] \<longrightarrow>
      must_know (build_digest summaries) = take 2 (take 7 (worth_a_look_pre summaries))
      \<and> worth_a_look (build_digest summaries) = drop 2 (take 7 (worth_a_look_pre summaries))
      \<and> must_know (build_digest summaries) \<noteq> [])
   \<and> (take 7 (worth_a_look_pre summaries) = [] \<longrightarrow>
      must_know (build_digest summaries) = take 3 (must_know_pre summaries)
      \<and> worth_a_look (build_digest summaries) = [])
   \<and> (take 3 (must_know_pre summaries) \<noteq> [] \<longrightarrow>
      must_know (build_digest summaries) = take 3 (must_know_pre summaries)
      \<and> worth_a_look (build_digest summaries) = take 7 (worth_a_look_pre summaries))
   \<and> quick_hits (build_digest summaries) = take 10 (quick_hits_pre summaries)"
  unfolding build_digest_pre fallback_def by auto

theorem fallback_promotion_witness:
  "take 3 (must_know_pre quiet_pool) = []
   \<and> take 7 (worth_a_look_pre quiet_pool) \<noteq> []
   \<and> must_know (build_digest quiet_pool) = [entry ''A'' 50 False, entry ''B'' 40 False]
   \<and> worth_a_look (build_digest quiet_pool) = [entry ''C'' 35 False]
   \<and> take 7 (worth_a_look_pre [row ''Z'' 0 False]) = []
   \<and> must_know (build_digest [row ''Z'' 0 False]) = []
   \<and> worth_a_look (build_digest [row ''Z'' 0 False]) = []
   \<and> quick_hits (build_digest [row ''Z'' 0 False]) = []
   \<and> take 3 (must_know_pre crowded_pool) \<noteq> []
   \<and> worth_a_look (build_digest crowded_pool) = take 7 (worth_a_look_pre crowded_pool)"
  using fallback_promotion [of quiet_pool] fallback_promotion [of "[row ''Z'' 0 False]"]
    fallback_promotion [of crowded_pool]
  by (simp add: quiet_pre crowded_pre silent_pre)

subsection \<open>What the slice of the top tier cuts off\<close>

lemma no_fallback:
  assumes "must_know_pre summaries \<noteq> []"
  shows "build_digest summaries =
     \<lparr> must_know = take 3 (must_know_pre summaries),
       worth_a_look = take 7 (worth_a_look_pre summaries),
       quick_hits = take 10 (quick_hits_pre summaries) \<rparr>"
  using assms by (simp add: build_digest_pre fallback_def)

text \<open>
  Claim C10. An item without the flag whose score reaches the high threshold and which is
  not among the first three of the sorted top-tier list is in no tier of the result: it
  is cut off by \<^verbatim>\<open>[:3]\<close>, the second tier wants a score below the high threshold and
  the third a score below the mid threshold.
\<close>

theorem critical_overflow_dropped:
  assumes "x \<in> set (collect_items summaries)"
    and "\<not> must_read x"
    and "high_of summaries \<le> of_int (relevance_score x)"
    and "x \<notin> set (take 3 (must_know_pre summaries))"
  shows "x \<notin> set (must_know (build_digest summaries))
    \<and> x \<notin> set (worth_a_look (build_digest summaries))
    \<and> x \<notin> set (quick_hits (build_digest summaries))"
proof -
  from assms(1,3) have "x \<in> set (must_know_pre summaries)"
    by (simp add: in_must_know_pre)
  then have "must_know_pre summaries \<noteq> []" by auto
  note digest = no_fallback [OF this]
  from assms(3) have "x \<notin> set (worth_a_look_pre summaries)"
    by (simp add: in_worth_a_look_pre)
  then have wl: "x \<notin> set (take 7 (worth_a_look_pre summaries))"
    by (auto dest: in_set_takeD)
  from assms(3) mid_le_high [of summaries] have "x \<notin> set (quick_hits_pre summaries)"
    by (simp add: in_quick_hits_pre)
  then have qh: "x \<notin> set (take 10 (quick_hits_pre summaries))"
    by (auto dest: in_set_takeD)
  from assms(4) wl qh show ?thesis by (simp add: digest)
qed

theorem critical_overflow_dropped_witness:
  "entry ''D'' 85 False \<in> set (collect_items overflow_pool)
   \<and> \<not> must_read (entry ''D'' 85 False)
   \<and> high_of overflow_pool \<le> of_int (relevance_score (entry ''D'' 85 False))
   \<and> entry ''D'' 85 False \<notin> set (take 3 (must_know_pre overflow_pool))
   \<and> entry ''D'' 85 False \<notin> set (must_know (build_digest overflow_pool))
   \<and> entry ''D'' 85 False \<notin> set (worth_a_look (build_digest overflow_pool))
   \<and> entry ''D'' 85 False \<notin> set (quick_hits (build_digest overflow_pool))"
proof -
  have 1: "entry ''D'' 85 False \<in> set (collect_items overflow_pool)"
    by (simp add: overflow_pool_def collect_row del: collect_items.simps(2))
  have 2: "\<not> must_read (entry ''D'' 85 False)"
    by (simp add: entry_sel)
  have 3: "high_of overflow_pool \<le> of_int (relevance_score (entry ''D'' 85 False))"
    by (simp add: overflow_thresholds entry_sel)
  have 4: "entry ''D'' 85 False \<notin> set (take 3 (must_know_pre overflow_pool))"
    by (simp add: overflow_pre entry_eq)
  from critical_overflow_dropped [OF 1 2 3 4] 1 2 3 4 show ?thesis by simp
qed

subsection \<open>The flag\<close>

text \<open>
  Claim C3 as stated fails. The top-tier list of line 97 holds the flagged items together
  with the items whose score reaches the high threshold, sorted by score, and \<^verbatim>\<open>[:3]\<close>
  cuts it whatever the flags are: in \<^const>\<open>crowded_pool\<close> one item carries the flag, with
  score 20, and three unflagged items of score 100, 95 and 90 take the three places.
\<close>

theorem must_read_elevation_counterexample:
  "length (filter must_read (collect_items crowded_pool)) \<le> 3
   \<and> entry ''D'' 20 True \<in> set (collect_items crowded_pool)
   \<and> must_read (entry ''D'' 20 True)
   \<and> 0 < relevance_score (entry ''D'' 20 True)
   \<and> entry ''D'' 20 True \<notin> set (must_know (build_digest crowded_pool))"
  by (simp add: crowded_collect crowded_digest entry_sel entry_eq)

text \<open>
  Claim C3, amended. When the top-tier list (flagged items and items at or above the
  high threshold) has at most three members, every flagged item, whatever its score, is
  in the top tier of the result. In general the top tier is the first three members of
  that list whenever the list is non-empty, and no member cut off scores higher than a
  member kept: the three best candidates win, flagged or not.
\<close>

theorem must_read_elevation:
  "(length (must_know_pre summaries) \<le> 3 \<longrightarrow>
      (\<forall>x \<in> set (collect_items summaries).
         must_read x \<longrightarrow> x \<in> set (must_know (build_digest summaries))))
   \<and> (must_know_pre summaries \<noteq> [] \<longrightarrow>
        must_know (build_digest summaries) = take 3 (must_know_pre summaries))
   \<and> (\<forall>x \<in> set (take 3 (must_know_pre summaries)).
        \<forall>y \<in> set (drop 3 (must_know_pre summaries)). relevance_score y \<le> relevance_score x)"
proof -
  have "x \<in> set (must_know (build_digest summaries))"
    if short: "length (must_know_pre summaries) \<le> 3"
      and x: "x \<in> set (collect_items summaries)" "must_read x" for x
  proof -
    from x have mem: "x \<in> set (must_know_pre summaries)"
      by (simp add: in_must_know_pre)
    then have "must_know_pre summaries \<noteq> []" by auto
    from no_fallback [OF this] mem short show ?thesis by simp
  qed
  moreover have "must_know (build_digest summaries) = take 3 (must_know_pre summaries)"
    if "must_know_pre summaries \<noteq> []"
    using no_fallback [OF that] by simp
  ultimately show ?thesis
    using kept_above_cut [OF pre_sorted(1), of 3 summaries] by blast
qed

theorem must_read_elevation_witness:
  "length (must_know_pre flagged_pool) \<le> 3
   \<and> entry ''D'' 20 True \<in> set (collect_items flagged_pool)
   \<and> entry ''E'' 0 True \<in> set (collect_items flagged_pool)
   \<and> must_read (entry ''D'' 20 True)
   \<and> must_read (entry ''E'' 0 True)
   \<and> entry ''D'' 20 True \<in> set (must_know (build_digest flagged_pool))
   \<and> entry ''E'' 0 True \<in> set (must_know (build_digest flagged_pool))
   \<and> must_know_pre crowded_pool \<noteq> []
   \<and> must_know (build_digest crowded_pool) = take 3 (must_know_pre crowded_pool)
   \<and> entry ''C'' 90 False \<in> set (take 3 (must_know_pre crowded_pool))
   \<and> entry ''D'' 20 True \<in> set (drop 3 (must_know_pre crowded_pool))
   \<and> relevance_score (entry ''D'' 20 True) \<le> relevance_score (entry ''C'' 90 False)"
  using must_read_elevation [of flagged_pool] must_read_elevation [of crowded_pool]
  by (simp add: flagged_pre flagged_collect flagged_digest crowded_pre crowded_digest entry_sel)

subsection \<open>Scores of zero\<close>

text \<open>
  Claim C4 as stated fails: the filter of line 97 lets a flagged item through whatever
  its score, so a flagged item of score 0 is in the top tier.
\<close>

theorem zero_score_exclusion_counterexample:
  "relevance_score (entry ''A'' 0 True) = 0
   \<and> entry ''A'' 0 True \<in> set (collect_items [row ''A'' 0 True])
   \<and> entry ''A'' 0 True \<in> set (must_know (build_digest [row ''A'' 0 True]))"
  by (simp add: zero_flag_digest entry_sel collect_row del: collect_items.simps(2))

text \<open>
  Claim C4, amended. An item of score 0 is never in the second or the third tier, and
  it is in the top tier only if it carries the flag: an unflagged item of score 0 is in
  no tier.
\<close>

theorem zero_score_exclusion:
  assumes "relevance_score x = 0"
  shows "x \<notin> set (worth_a_look (build_digest summaries))
    \<and> x \<notin> set (quick_hits (build_digest summaries))
    \<and> (\<not> must_read x \<longrightarrow> x \<notin> set (must_know (build_digest summaries)))"
proof -
  from assms mid_of_floor [of summaries] have "x \<notin> set (worth_a_look_pre summaries)"
    by (simp add: in_worth_a_look_pre)
  then have wl: "x \<notin> set (take 7 (worth_a_look_pre summaries))"
    by (auto dest: in_set_takeD)
  from assms have "x \<notin> set (quick_hits_pre summaries)"
    by (simp add: in_quick_hits_pre)
  then have qh: "x \<notin> set (take 10 (quick_hits_pre summaries))"
    by (auto dest: in_set_takeD)
  from assms high_of_floor [of summaries]
  have "\<not> must_read x \<Longrightarrow> x \<notin> set (must_know_pre summaries)"
    by (simp add: in_must_know_pre)
  then have mk: "\<not> must_read x \<Longrightarrow> x \<notin> set (take 3 (must_know_pre summaries))"
    by (auto dest: in_set_takeD)
  from wl qh mk show ?thesis
    unfolding build_digest_pre by (auto dest: fallback_members)
qed

theorem zero_score_exclusion_witness:
  "relevance_score (entry ''Z'' 0 False) = 0
   \<and> \<not> must_read (entry ''Z'' 0 False)
   \<and> entry ''Z'' 0 False \<in> set (collect_items [row ''Z'' 0 False, row ''A'' 80 False])
   \<and> entry ''Z'' 0 False \<notin> set (must_know (build_digest [row ''Z'' 0 False, row ''A'' 80 False]))
   \<and> entry ''Z'' 0 False \<notin> set (worth_a_look (build_digest [row ''Z'' 0 False, row ''A'' 80 False]))
   \<and> entry ''Z'' 0 False \<notin> set (quick_hits (build_digest [row ''Z'' 0 False, row ''A'' 80 False]))"
  using zero_score_exclusion [of "entry ''Z'' 0 False" "[row ''Z'' 0 False, row ''A'' 80 False]"]
  by (simp add: entry_sel collect_row del: collect_items.simps(2))

subsection \<open>Tiers that overlap\<close>

text \<open>
  Claim C1. The filter of the second tier (line 98) excludes flagged items; the filter
  of the third tier (line 99) does not. A flagged item with a score above 0 and below the
  mid threshold is therefore returned twice, in the top tier and in the third: on the
  pool of one flagged item of score 20 the two tiers hold the same item.
\<close>

theorem partition_overlap:
  "build_digest [row ''A'' 20 True] =
     \<lparr> must_know = [entry ''A'' 20 True], worth_a_look = [],
       quick_hits = [entry ''A'' 20 True] \<rparr>
   \<and> set (must_know (build_digest [row ''A'' 20 True]))
       \<inter> set (quick_hits (build_digest [row ''A'' 20 True])) \<noteq> {}"
  by (simp add: low_flag_digest)

subsection \<open>Scores out of range and missing scores\<close>

lemma make_item_normalise:
  assumes "\<forall>v. s_relevance_score s = Some v \<longrightarrow> 0 \<le> v \<and> v \<le> 100"
  shows "make_item (normalise_row s) it = make_item s it"
  using assms
  by (simp add: make_item_def normalise_row_def clamp_score_def field_get_def
      split: option.splits)

lemma collect_items_normalise:
  assumes "\<forall>s \<in> set ss. \<forall>v. s_relevance_score s = Some v \<longrightarrow> 0 \<le> v \<and> v \<le> 100"
  shows "collect_items (map normalise_row ss) = collect_items ss"
  using assms
proof (induction ss)
  case Nil
  show ?case by simp
next
  case (Cons s ss)
  have item: "s_item (normalise_row s) = s_item s"
    by (simp add: normalise_row_def)
  from Cons.prems have "\<forall>v. s_relevance_score s = Some v \<longrightarrow> 0 \<le> v \<and> v \<le> 100"
    by simp
  then have "make_item (normalise_row s) it = make_item s it" for it
    by (rule make_item_normalise)
  with Cons item show ?case by (simp split: option.splits)
qed

lemma build_digest_collect:
  "collect_items a = collect_items b \<Longrightarrow> build_digest a = build_digest b"
  by (simp add: build_digest_def)

text \<open>
  Claim C2 as stated fails: \<^verbatim>\<open>build_digest\<close> has no clamp. In \<^const>\<open>loud_pool\<close> the
  score 200 sets the thresholds to 140 and 80 and sends the item of score 75 to the third
  tier; with the scores clamped the thresholds are 70 and 40 and the same item is in the
  top tier.
\<close>

theorem score_clamping_counterexample:
  "build_digest loud_pool \<noteq> build_digest (map normalise_row loud_pool)
   \<and> quick_hits (build_digest loud_pool) = [entry ''B'' 75 False]
   \<and> quick_hits (build_digest (map normalise_row loud_pool)) = []
   \<and> must_know (build_digest (map normalise_row loud_pool)) =
       [entry ''A'' 100 False, entry ''B'' 75 False]"
  by (simp add: loud_digest loud_normalised clamped_digest entry_eq)

text \<open>
  Claim C2, amended. A missing score counts as 0, and a score that is present is used as
  it is. For a pool whose present scores all lie between 0 and 100 the result is the
  result for the pool with every score replaced by \<^verbatim>\<open>min(100, max(0, score))\<close>, a
  missing score counting as 0.
\<close>

theorem score_defaulting:
  assumes "\<forall>s \<in> set summaries. \<forall>v. s_relevance_score s = Some v \<longrightarrow> 0 \<le> v \<and> v \<le> 100"
  shows "build_digest summaries = build_digest (map normalise_row summaries)"
  by (rule build_digest_collect) (simp add: collect_items_normalise [OF assms])

theorem score_defaulting_witness:
  "s_relevance_score (row_of (ItemDict [(''title'', ''M'')]) None False) = None
   \<and> s_relevance_score (row ''A'' 50 False) = Some 50
   \<and> map normalise_row [row_of (ItemDict [(''title'', ''M'')]) None False, row ''A'' 50 False]
     = [row_of (ItemDict [(''title'', ''M'')]) (Some 0) False, row ''A'' 50 False]
   \<and> build_digest [row_of (ItemDict [(''title'', ''M'')]) None False, row ''A'' 50 False]
     = build_digest [row_of (ItemDict [(''title'', ''M'')]) (Some 0) False, row ''A'' 50 False]"
  using score_defaulting
    [of "[row_of (ItemDict [(''title'', ''M'')]) None False, row ''A'' 50 False]"]
  by (simp add: row_def row_of_def normalise_row_def clamp_score_def field_get_def)

subsection \<open>Thresholds\<close>

lemma scores_collect:
  "map relevance_score (collect_items ss) =
     map (\<lambda>s. field_get (s_relevance_score s) 0) (filter has_item ss)"
  by (induction ss) (simp_all add: has_item_def make_item_def split: option.splits)

lemma sort_items_Nil: "sort_items xs = [] \<longleftrightarrow> xs = []"
  using length_sort [of "\<lambda>i. - relevance_score i" xs]
  by (auto simp add: sort_items_def simp del: length_sort)

lemma max_score_items_of: "max_score (items_of ss) = pool_max_score (filter has_item ss)"
proof -
  have set: "set (map relevance_score (items_of ss)) = set (map relevance_score (collect_items ss))"
    by (simp add: items_of_def sort_items_def)
  have nil: "items_of ss = [] \<longleftrightarrow> filter has_item ss = []"
    using scores_collect [of ss] by (simp add: items_of_def sort_items_Nil del: filter_False)
      (metis map_is_Nil_conv)
  show ?thesis
    unfolding max_score_def pool_max_score_def Let_def set scores_collect
    using nil by simp
qed

text \<open>
  Claim C5 as stated fails on the pool that \<^verbatim>\<open>build_digest\<close> receives: the entries
  without an item record are skipped in lines 72-78, before the maximum is taken. In
  \<^const>\<open>orphan_pool\<close> the maximum over the pool is 100, which would give thresholds of 70
  and 40 and send the item of score 35 to the third tier; the code takes the maximum 35
  over the one entry with an item record, the thresholds are 60 and 30, and the item
  lands in the second tier and, by the fallback, in the top tier.
\<close>

theorem threshold_derivation_counterexample:
  "pool_max_score orphan_pool = 100
   \<and> max (of_int (pool_max_score orphan_pool) * (7 / 10)) 60 = (70 :: rat)
   \<and> max (of_int (pool_max_score orphan_pool) * (4 / 10)) 30 = (40 :: rat)
   \<and> high_of orphan_pool = 60
   \<and> mid_of orphan_pool = 30
   \<and> build_digest orphan_pool =
       \<lparr> must_know = [entry ''A'' 35 False], worth_a_look = [], quick_hits = [] \<rparr>
   \<and> assemble 70 40 (items_of orphan_pool) =
       \<lparr> must_know = [], worth_a_look = [], quick_hits = [entry ''A'' 35 False] \<rparr>"
  by (simp add: orphan_pool_max orphan_thresholds orphan_digest orphan_items assemble_def
      fallback_def must_know_candidates_def worth_a_look_candidates_def
      quick_hits_candidates_def entry_sel)

text \<open>
  Claim C5, amended. The thresholds that \<^verbatim>\<open>build_digest\<close> works with are
  \<^verbatim>\<open>max(max_score * 0.7, 60)\<close> and \<^verbatim>\<open>max(max_score * 0.4, 30)\<close>, where
  \<^verbatim>\<open>max_score\<close> is the maximum score over the entries of the pool that carry an item
  record, a missing score counting as 0, and 0 when there is no such entry. When all
  these scores are below 60 the high threshold is exactly 60.
\<close>

theorem threshold_derivation:
  "high_of summaries = max (of_int (pool_max_score (filter has_item summaries)) * (7 / 10)) 60
   \<and> mid_of summaries = max (of_int (pool_max_score (filter has_item summaries)) * (4 / 10)) 30
   \<and> build_digest summaries =
       assemble (high_of summaries) (mid_of summaries) (items_of summaries)
   \<and> ((\<forall>s \<in> set summaries. has_item s \<longrightarrow> field_get (s_relevance_score s) 0 < 60) \<longrightarrow>
        high_of summaries = 60)"
proof -
  have high: "high_of summaries =
      max (of_int (pool_max_score (filter has_item summaries)) * (7 / 10)) 60"
    by (simp add: high_of_def high_threshold_def max_score_items_of)
  have mid: "mid_of summaries =
      max (of_int (pool_max_score (filter has_item summaries)) * (4 / 10)) 30"
    by (simp add: mid_of_def mid_threshold_def max_score_items_of)
  have digest: "build_digest summaries =
      assemble (high_of summaries) (mid_of summaries) (items_of summaries)"
    by (simp add: build_digest_def Let_def high_of_def mid_of_def items_of_def)
  have "high_of summaries = 60"
    if low: "\<forall>s \<in> set summaries. has_item s \<longrightarrow> field_get (s_relevance_score s) 0 < 60"
  proof -
    have "pool_max_score (filter has_item summaries) < 60"
    proof (cases "filter has_item summaries = []")
      case True
      then show ?thesis by (simp add: pool_max_score_def)
    next
      case False
      then have "set (map (\<lambda>s. field_get (s_relevance_score s) 0)
          (filter has_item summaries)) \<noteq> {}"
        by (simp only: set_empty map_is_Nil_conv) simp
      then have "Max (set (map (\<lambda>s. field_get (s_relevance_score s) 0)
          (filter has_item summaries))) < 60"
        using low by (subst Max_less_iff) auto
      with False show ?thesis by (simp add: pool_max_score_def)
    qed
    then have "rat_of_int (pool_max_score (filter has_item summaries)) < 60"
      by simp
    then have "rat_of_int (pool_max_score (filter has_item summaries)) * (7 / 10) \<le> 60"
      by simp
    with high show ?thesis by (simp add: max_def)
  qed
  with high mid digest show ?thesis by blast
qed

theorem threshold_derivation_witness:
  "has_item (row ''A'' 35 False)
   \<and> \<not> has_item (row_of ItemNone (Some 100) False)
   \<and> field_get (s_relevance_score (row ''A'' 35 False)) 0 < 60
   \<and> filter has_item orphan_pool = [row ''A'' 35 False]
   \<and> high_of orphan_pool = 60
   \<and> mid_of orphan_pool = 30"
  using threshold_derivation [of orphan_pool]
  by (simp add: orphan_pool_def has_item_def row_def row_of_def field_get_def
      pool_max_score_def)

end
